theory Spec2Isabelle
  imports Complex_Main "HOL-Library.Word"
begin

section \<open>The watermelon ripeness page (src/pages/index.vue)\<close>

text \<open>
  The script of the page keeps its session in reactive references and runs three pieces of
  logic: the two thresholds computed from the sensitivity dial, the per-frame scan of the
  frequency band 100 to 300 Hz (\<open>processAudio\<close>), and the scoring model
  (\<open>calculateRipeness\<close>).

  JavaScript numbers are modelled as \<^typ>\<open>real\<close>: rounding of the double format is not
  part of the model. Bin indices are \<^typ>\<open>int\<close>, the entries of the \<open>Uint8Array\<close> are
  \<^typ>\<open>8 word\<close>. The two places where the script can produce a value that is not a real
  number are written out: a read outside the typed array gives \<open>undefined\<close>, and the band
  average divides by \<open>maxIndex - minIndex\<close>, which may be zero.
\<close>

subsection \<open>Reactive state\<close>

record result =
  baseFrequency :: "real option"
  ripenessIndex :: "real option"
  ripenessScore :: "real option"
  sweetnessBrix :: "real option"
  verdict :: string
  ripenessClass :: string

text \<open>
  \<open>framePending\<close> stands for the animation frame requested and not yet run or cancelled
  (\<open>animationFrameId\<close>); the media stream and the audio context carry no data the logic
  reads besides the sample rate and the FFT size, which are parameters below.
\<close>

record app =
  massKg :: real
  isListening :: bool
  error :: "string option"
  sensitivity :: real
  result :: result
  framePending :: bool

definition emptyResult :: result where
  "emptyResult = \<lparr>baseFrequency = None, ripenessIndex = None, ripenessScore = None,
     sweetnessBrix = None, verdict = [], ripenessClass = []\<rparr>"

text \<open>The state of the page when it is mounted (no frame requested yet).\<close>

definition initialApp :: app where
  "initialApp = \<lparr>massKg = 4.5, isListening = False, error = None, sensitivity = 8,
     result = emptyResult, framePending = False\<rparr>"

subsection \<open>Computed properties\<close>

definition isMassValid :: "real \<Rightarrow> bool" where
  "isMassValid m = (m > 0)"

definition absoluteThreshold :: "real \<Rightarrow> real" where
  "absoluteThreshold s = 160 - (s * 10)"

definition relativeThreshold :: "real \<Rightarrow> real" where
  "relativeThreshold s = 45 - (s * 3)"

subsection \<open>Numbers that are not real numbers\<close>

text \<open>
  The value of a JavaScript arithmetic expression: \<open>NaN\<close>, an infinity, or a finite number.
\<close>

datatype jsnum = NaN | PosInfinity | NegInfinity | Finite real

text \<open>\<open>x + y\<close> for a finite \<open>y\<close>.\<close>

fun jsPlus :: "jsnum \<Rightarrow> real \<Rightarrow> jsnum" where
  "jsPlus NaN y = NaN"
| "jsPlus PosInfinity y = PosInfinity"
| "jsPlus NegInfinity y = NegInfinity"
| "jsPlus (Finite x) y = Finite (x + y)"

text \<open>
  \<open>x / d\<close> for a finite \<open>d\<close>, where a zero \<open>d\<close> is the positive zero (the difference of two
  equal integers): \<open>0 / 0\<close> is \<open>NaN\<close>, a non-zero number over zero is an infinity of its sign.
\<close>

fun jsDivide :: "jsnum \<Rightarrow> real \<Rightarrow> jsnum" where
  "jsDivide NaN d = NaN"
| "jsDivide PosInfinity d = (if d < 0 then NegInfinity else PosInfinity)"
| "jsDivide NegInfinity d = (if d < 0 then PosInfinity else NegInfinity)"
| "jsDivide (Finite x) d =
     (if d = 0 then (if x = 0 then NaN else if 0 < x then PosInfinity else NegInfinity)
      else Finite (x / d))"

text \<open>\<open>p > x\<close> for a finite \<open>p\<close>: every comparison with \<open>NaN\<close> is false.\<close>

fun jsGreater :: "real \<Rightarrow> jsnum \<Rightarrow> bool" where
  "jsGreater p NaN = False"
| "jsGreater p PosInfinity = False"
| "jsGreater p NegInfinity = True"
| "jsGreater p (Finite x) = (x < p)"

subsection \<open>The frame scan of \<open>processAudio\<close>\<close>

text \<open>
  \<open>dataArray[i]\<close>: the byte at an index inside the typed array, \<open>undefined\<close> (here \<open>None\<close>)
  at any other index.
\<close>

definition byteAt :: "8 word list \<Rightarrow> int \<Rightarrow> nat option" where
  "byteAt dataArray i =
     (if 0 \<le> i \<and> i < int (length dataArray) then Some (unat (dataArray ! nat i)) else None)"

record scan =
  peakAmplitude :: nat
  peakIndex :: int
  totalAmplitude :: jsnum

definition scanStart :: scan where
  "scanStart = \<lparr>peakAmplitude = 0, peakIndex = 0, totalAmplitude = Finite 0\<rparr>"

text \<open>
  The body of the loop at index \<open>i\<close>. Adding \<open>undefined\<close> turns the total into \<open>NaN\<close>, and
  \<open>undefined > peakAmplitude\<close> is false.
\<close>

definition scanStep :: "8 word list \<Rightarrow> int \<Rightarrow> scan \<Rightarrow> scan" where
  "scanStep dataArray i s =
     (case byteAt dataArray i of
        None \<Rightarrow> s\<lparr>totalAmplitude := NaN\<rparr>
      | Some v \<Rightarrow>
          (let s' = s\<lparr>totalAmplitude := jsPlus (totalAmplitude s) (real v)\<rparr>
           in if v > peakAmplitude s' then s'\<lparr>peakAmplitude := v, peakIndex := i\<rparr> else s'))"

text \<open>\<open>for (let i = minIndex; i < maxIndex; i++)\<close>, entered with \<open>i\<close>.\<close>

function scanBand :: "8 word list \<Rightarrow> int \<Rightarrow> int \<Rightarrow> scan \<Rightarrow> scan" where
  "scanBand dataArray i maxIndex s =
     (if i < maxIndex then scanBand dataArray (i + 1) maxIndex (scanStep dataArray i s) else s)"
  by pat_completeness auto
termination
  by (relation "measure (\<lambda>(dataArray, i, maxIndex, s). nat (maxIndex - i))") auto

declare scanBand.simps [simp del]

definition averageAmplitude :: "scan \<Rightarrow> int \<Rightarrow> int \<Rightarrow> jsnum" where
  "averageAmplitude s minIndex maxIndex =
     jsDivide (totalAmplitude s) (real_of_int (maxIndex - minIndex))"

text \<open>
  Lines 85 to 101 for a given band and bin width \<open>sampleRate / fftSize\<close>: the base frequency
  handed to \<open>calculateRipeness\<close> when the frame passes both tests, \<open>None\<close> when it does not.
\<close>

definition detectBand :: "8 word list \<Rightarrow> int \<Rightarrow> int \<Rightarrow> real \<Rightarrow> real \<Rightarrow> real \<Rightarrow> real option" where
  "detectBand dataArray minIndex maxIndex binWidth absT relT =
     (let s = scanBand dataArray minIndex maxIndex scanStart;
          avg = averageAmplitude s minIndex maxIndex
      in if real (peakAmplitude s) > absT \<and> jsGreater (real (peakAmplitude s)) (jsPlus avg relT)
         then Some (real_of_int (peakIndex s) * binWidth)
         else None)"

subsection \<open>Scoring: \<open>calculateRipeness\<close>\<close>

text \<open>The three verdict texts, as the UTF-8 bytes of the literals in the script.\<close>

definition verdictRipe :: string where
  "verdictRipe = [CHR 0xE2, CHR 0x9C, CHR 0x85, CHR 0x20, CHR 0xE6, CHR 0x81, CHR 0xB0, CHR 0xE5,
     CHR 0x88, CHR 0xB0, CHR 0xE5, CHR 0xA5, CHR 0xBD, CHR 0xE5, CHR 0xA4, CHR 0x84]"

definition verdictBorderline :: string where
  "verdictBorderline = [CHR 0xF0, CHR 0x9F, CHR 0xA4, CHR 0x94, CHR 0x20, CHR 0xE5, CHR 0x90,
     CHR 0xAC, CHR 0xE8, CHR 0xB5, CHR 0xB7, CHR 0xE6, CHR 0x9D, CHR 0xA5, CHR 0xE4, CHR 0xB8,
     CHR 0x8D, CHR 0xE5, CHR 0xA4, CHR 0xAA, CHR 0xE5, CHR 0xA6, CHR 0x99]"

definition verdictUnripe :: string where
  "verdictUnripe = [CHR 0xE2, CHR 0x9D, CHR 0x8C, CHR 0x20, CHR 0xE7, CHR 0x94, CHR 0x9F, CHR 0xE7,
     CHR 0x93, CHR 0x9C, CHR 0xE8, CHR 0x9B, CHR 0x8B, CHR 0xE5, CHR 0xAD, CHR 0x90]"

text \<open>
  \<open>calculateRipeness(frequency)\<close> reads \<open>massKg\<close> and writes \<open>result\<close>. With a mass that is
  not positive it returns at once and writes nothing. \<open>m ** (2 / 3)\<close> is taken for \<open>m > 0\<close>
  only, where it is \<open>m powr (2 / 3)\<close>.
\<close>

definition calculateRipeness :: "app \<Rightarrow> real \<Rightarrow> app" where
  "calculateRipeness st frequency =
     (if massKg st \<le> 0 then st
      else
        let m = massKg st;
            f = frequency;
            idx = f ^ 2 * m powr (2 / 3);
            r1 = (result st)\<lparr>baseFrequency := Some f, ripenessIndex := Some idx\<rparr>;
            r2 = (if idx < 74000 then r1\<lparr>verdict := verdictRipe, ripenessClass := ''ripe''\<rparr>
                  else if idx < 85000
                    then r1\<lparr>verdict := verdictBorderline, ripenessClass := ''borderline''\<rparr>
                    else r1\<lparr>verdict := verdictUnripe, ripenessClass := ''unripe''\<rparr>);
            sweetness = 12 - 4 * ((idx - 60000) / 30000);
            r3 = r2\<lparr>sweetnessBrix := Some (max 5 (min 13 sweetness))\<rparr>;
            ripeThreshold = 60000;
            unripeThreshold = 95000;
            score = 100 * (unripeThreshold - idx) / (unripeThreshold - ripeThreshold)
        in st\<lparr>result := r3\<lparr>ripenessScore := Some (max 0 (min 100 score))\<rparr>\<rparr>)"

subsection \<open>Session control\<close>

definition stopListening :: "app \<Rightarrow> app" where
  "stopListening st = st\<lparr>framePending := False, isListening := False\<rparr>"

text \<open>The analyser is configured with \<open>fftSize = 16384\<close> in \<open>startDetection\<close>.\<close>

definition fftSize :: real where
  "fftSize = 16384"

text \<open>
  One run of the frame callback on the frame \<open>dataArray\<close>, for the audio context's sample
  rate: a detection scores the tap and stops the session, anything else requests the next
  frame. The sample rate of an audio context is positive; the quotients below mean the
  script's only for \<open>sampleRate > 0\<close>. The drawing of the spectrum at the end of the
  callback changes no state.
\<close>

definition processAudio :: "real \<Rightarrow> 8 word list \<Rightarrow> app \<Rightarrow> app" where
  "processAudio sampleRate dataArray st =
     (let relevantFreqMin = 100;
          relevantFreqMax = 300;
          minIndex = round (relevantFreqMin / (sampleRate / fftSize));
          maxIndex = round (relevantFreqMax / (sampleRate / fftSize))
      in case detectBand dataArray minIndex maxIndex (sampleRate / fftSize)
                (absoluteThreshold (sensitivity st)) (relativeThreshold (sensitivity st)) of
           Some frequency \<Rightarrow> stopListening (calculateRipeness st frequency)
         | None \<Rightarrow> st\<lparr>framePending := True\<rparr>)"

text \<open>
  The browser as \<open>startDetection\<close> sees it: whether \<open>navigator.mediaDevices.getUserMedia\<close>
  exists, and the error thrown while the microphone and the analyser are set up, if any
  (as the text \<open>${err}\<close> gives it).
\<close>

record browser =
  mediaSupported :: bool
  captureError :: "string option"

definition detectThump :: "app \<Rightarrow> app" where
  "detectThump st = st\<lparr>framePending := True\<rparr>"

definition startDetection :: "browser \<Rightarrow> app \<Rightarrow> app" where
  "startDetection env st =
     (if \<not> mediaSupported env
      then st\<lparr>error := Some (''Your browser doesn'' @ [CHR 0x27] @ ''t support audio recording. Please use a modern browser like Chrome or Firefox.'')\<rparr>
      else
        let st1 = st\<lparr>result := emptyResult, error := None, isListening := True\<rparr>
        in case captureError env of
             None \<Rightarrow> detectThump st1
           | Some err \<Rightarrow>
               st1\<lparr>error := Some (''Could not access the microphone. Please grant permission and try again. '' @ err),
                   isListening := False\<rparr>)"

text \<open>
  The start button of the template carries \<open>:disabled="isListening || !isMassValid"\<close> and
  \<open>@click="startDetection"\<close>: a click on the disabled button does nothing.
\<close>

definition startDisabled :: "app \<Rightarrow> bool" where
  "startDisabled st = (isListening st \<or> \<not> isMassValid (massKg st))"

definition clickStart :: "browser \<Rightarrow> app \<Rightarrow> app" where
  "clickStart env st = (if startDisabled st then st else startDetection env st)"

subsection \<open>The specification's vocabulary\<close>

text \<open>\<open>clamp(v, lo, hi)\<close> as the specification uses it.\<close>

definition clamp :: "real \<Rightarrow> real \<Rightarrow> real \<Rightarrow> real" where
  "clamp v lo hi = (if v < lo then lo else if hi < v then hi else v)"

text \<open>The ripeness index of a tap frequency and a mass, as the specification writes it.\<close>

definition ripenessIndexOf :: "real \<Rightarrow> real \<Rightarrow> real" where
  "ripenessIndexOf frequencyHz m = frequencyHz ^ 2 * m powr (2 / 3)"





section \<open>Properties\<close>

subsection \<open>Thresholds\<close>

text \<open>
  C8. For every sensitivity \<open>s\<close> in \<open>[1, 20]\<close> the absolute threshold is \<open>160 - 10 s\<close> and the
  relative threshold is \<open>45 - 3 s\<close>, and both are strictly decreasing on that range: a larger
  sensitivity in the range gives a strictly smaller threshold.
\<close>

theorem thresholds_formula_decreasing:
  assumes "1 \<le> s" and "s \<le> 20"
  shows "absoluteThreshold s = 160 - 10 * s \<and> relativeThreshold s = 45 - 3 * s
    \<and> (\<forall>t. 1 \<le> t \<and> t < s \<longrightarrow>
          absoluteThreshold s < absoluteThreshold t \<and> relativeThreshold s < relativeThreshold t)"
  by (simp add: absoluteThreshold_def relativeThreshold_def)

theorem thresholds_formula_decreasing_witness:
  "absoluteThreshold 8 = 80 \<and> relativeThreshold 8 = 21
   \<and> absoluteThreshold 8 < absoluteThreshold 7 \<and> relativeThreshold 8 < relativeThreshold 7"
proof -
  have a: "(1::real) \<le> 8" and b: "(8::real) \<le> 20"
    by simp_all
  note th = thresholds_formula_decreasing [OF a b]
  from th have f: "absoluteThreshold 8 = 80" by simp
  from th have g: "relativeThreshold 8 = 21" by simp
  from th have "(1::real) \<le> 7 \<and> (7::real) < 8 \<longrightarrow>
      absoluteThreshold 8 < absoluteThreshold 7 \<and> relativeThreshold 8 < relativeThreshold 7"
    by blast
  with f g show ?thesis by simp
qed

text \<open>
  C4. As the specification states it, the thresholds of a sensitivity outside \<open>[1, 20]\<close>
  would be those of the sensitivity clamped into the range. The computed properties do not
  clamp: at 0 and at 25 both thresholds differ from those of the clamped value.
\<close>

theorem thresholds_clamp_counterexample:
  "absoluteThreshold 0 \<noteq> absoluteThreshold (clamp 0 1 20)
   \<and> relativeThreshold 0 \<noteq> relativeThreshold (clamp 0 1 20)
   \<and> absoluteThreshold 25 \<noteq> absoluteThreshold (clamp 25 1 20)
   \<and> relativeThreshold 25 \<noteq> relativeThreshold (clamp 25 1 20)"
  by (simp add: absoluteThreshold_def relativeThreshold_def clamp_def)

text \<open>
  C4, amended. The thresholds are computed from the sensitivity as it is, without clamping:
  they agree with the thresholds of the clamped sensitivity exactly when the sensitivity
  lies in \<open>[1, 20]\<close> already. (The range is kept by the slider of the template, which has
  \<open>:min="1"\<close> and \<open>:max="20"\<close>.)
\<close>

theorem thresholds_unclamped:
  "(absoluteThreshold s = absoluteThreshold (clamp s 1 20)
      \<and> relativeThreshold s = relativeThreshold (clamp s 1 20))
   \<longleftrightarrow> (1 \<le> s \<and> s \<le> 20)"
  by (auto simp add: absoluteThreshold_def relativeThreshold_def clamp_def)

theorem thresholds_unclamped_witness:
  "absoluteThreshold 8 = absoluteThreshold (clamp 8 1 20)
   \<and> relativeThreshold 8 = relativeThreshold (clamp 8 1 20)"
proof -
  have "(1::real) \<le> 8 \<and> (8::real) \<le> 20" by simp
  with thresholds_unclamped [of 8] show ?thesis by blast
qed

subsection \<open>Scoring\<close>

lemma max_min_clamp: "lo \<le> hi \<Longrightarrow> max lo (min hi v) = clamp v lo hi"
  by (auto simp: clamp_def)

lemma calculateRipeness_result:
  assumes "0 < massKg st"
  shows "result (calculateRipeness st f) =
    (let idx = ripenessIndexOf f (massKg st) in
     \<lparr>baseFrequency = Some f, ripenessIndex = Some idx,
      ripenessScore = Some (clamp (100 * (95000 - idx) / (95000 - 60000)) 0 100),
      sweetnessBrix = Some (clamp (12 - 4 * (idx - 60000) / 30000) 5 13),
      verdict = (if idx < 74000 then verdictRipe else if idx < 85000 then verdictBorderline else verdictUnripe),
      ripenessClass = (if idx < 74000 then ''ripe'' else if idx < 85000 then ''borderline'' else ''unripe'')\<rparr>)"
  using assms
  by (simp add: calculateRipeness_def ripenessIndexOf_def Let_def max_min_clamp [symmetric])

lemma idx_sqrt: "0 \<le> x \<Longrightarrow> ripenessIndexOf (sqrt x) 1 = x"
  by (simp add: ripenessIndexOf_def)

lemma verdict_distinct:
  "verdictRipe \<noteq> verdictBorderline" "verdictRipe \<noteq> verdictUnripe" "verdictBorderline \<noteq> verdictUnripe"
  by (simp_all add: verdictRipe_def verdictBorderline_def verdictUnripe_def)

lemma ripenessIndexOf_mono:
  assumes "0 \<le> f1" "f1 \<le> f2"
  shows "ripenessIndexOf f1 m \<le> ripenessIndexOf f2 m"
proof -
  from assms have "f1 ^ 2 \<le> f2 ^ 2" by (rule power_mono [rotated])
  moreover have "0 \<le> m powr (2 / 3)" by simp
  ultimately show ?thesis
    unfolding ripenessIndexOf_def by (rule mult_right_mono)
qed

lemma clamp_mono: "lo \<le> hi \<Longrightarrow> a \<le> b \<Longrightarrow> clamp a lo hi \<le> clamp b lo hi"
  by (auto simp: clamp_def)

lemma score_brix_antimono:
  assumes "0 < massKg st" "0 < massKg st'"
    and "ripenessIndexOf f (massKg st) \<le> ripenessIndexOf f' (massKg st')"
  shows "\<exists>a b c d. ripenessScore (result (calculateRipeness st f)) = Some a
            \<and> ripenessScore (result (calculateRipeness st' f')) = Some b \<and> b \<le> a
            \<and> sweetnessBrix (result (calculateRipeness st f)) = Some c
            \<and> sweetnessBrix (result (calculateRipeness st' f')) = Some d \<and> d \<le> c"
  using assms(3)
  by (simp add: calculateRipeness_result [OF assms(1)] calculateRipeness_result [OF assms(2)]
      Let_def clamp_mono)

text \<open>
  C2. For every frequency and every mass \<open>massKg > 0\<close>, \<open>calculateRipeness\<close> stores
  \<open>ripenessIndex = frequencyHz\<^sup>2 * massKg powr (2/3)\<close>,
  \<open>sweetnessBrix = clamp(12 - 4 * (ripenessIndex - 60000) / 30000, 5, 13)\<close> and
  \<open>ripenessScore = clamp(100 * (95000 - ripenessIndex) / (95000 - 60000), 0, 100)\<close>; an
  index of 60000 gives the score 100 and 12 Brix exactly, an index of 95000 the score 0.
\<close>

theorem calculateRipeness_formulas:
  assumes "0 < massKg st"
  shows "ripenessIndex (result (calculateRipeness st f)) = Some (ripenessIndexOf f (massKg st))
    \<and> sweetnessBrix (result (calculateRipeness st f))
        = Some (clamp (12 - 4 * (ripenessIndexOf f (massKg st) - 60000) / 30000) 5 13)
    \<and> ripenessScore (result (calculateRipeness st f))
        = Some (clamp (100 * (95000 - ripenessIndexOf f (massKg st)) / (95000 - 60000)) 0 100)
    \<and> (ripenessIndexOf f (massKg st) = 60000 \<longrightarrow>
          ripenessScore (result (calculateRipeness st f)) = Some 100
          \<and> sweetnessBrix (result (calculateRipeness st f)) = Some 12)
    \<and> (ripenessIndexOf f (massKg st) = 95000 \<longrightarrow>
          ripenessScore (result (calculateRipeness st f)) = Some 0)"
  by (simp add: calculateRipeness_result [OF assms] Let_def clamp_def)

theorem calculateRipeness_formulas_witness:
  "ripenessScore (result (calculateRipeness (initialApp\<lparr>massKg := 1\<rparr>) (sqrt 60000))) = Some 100
   \<and> sweetnessBrix (result (calculateRipeness (initialApp\<lparr>massKg := 1\<rparr>) (sqrt 60000))) = Some 12
   \<and> ripenessScore (result (calculateRipeness (initialApp\<lparr>massKg := 1\<rparr>) (sqrt 95000))) = Some 0"
proof -
  have m: "0 < massKg (initialApp\<lparr>massKg := 1\<rparr>)" by simp
  have a: "ripenessIndexOf (sqrt 60000) (massKg (initialApp\<lparr>massKg := 1\<rparr>)) = 60000"
    by (simp add: idx_sqrt)
  have b: "ripenessIndexOf (sqrt 95000) (massKg (initialApp\<lparr>massKg := 1\<rparr>)) = 95000"
    by (simp add: idx_sqrt)
  from calculateRipeness_formulas [OF m, of "sqrt 60000"] a
  have c: "ripenessScore (result (calculateRipeness (initialApp\<lparr>massKg := 1\<rparr>) (sqrt 60000))) = Some 100
          \<and> sweetnessBrix (result (calculateRipeness (initialApp\<lparr>massKg := 1\<rparr>) (sqrt 60000))) = Some 12"
    by blast
  from calculateRipeness_formulas [OF m, of "sqrt 95000"] b
  have d: "ripenessScore (result (calculateRipeness (initialApp\<lparr>massKg := 1\<rparr>) (sqrt 95000))) = Some 0"
    by blast
  from c d show ?thesis by simp
qed

text \<open>
  C3. For a positive mass the class of the verdict is \<open>ripe\<close> exactly when the ripeness index
  is below 74000, \<open>borderline\<close> exactly when it is at least 74000 and below 85000, and
  \<open>unripe\<close> exactly when it is at least 85000; the verdict text follows the same bounds. An
  index of exactly 74000 is borderline and one of exactly 85000 is unripe.
\<close>

theorem verdict_classification:
  assumes "0 < massKg st"
  shows "(ripenessClass (result (calculateRipeness st f)) = ''ripe''
            \<longleftrightarrow> ripenessIndexOf f (massKg st) < 74000)
    \<and> (ripenessClass (result (calculateRipeness st f)) = ''borderline''
            \<longleftrightarrow> 74000 \<le> ripenessIndexOf f (massKg st) \<and> ripenessIndexOf f (massKg st) < 85000)
    \<and> (ripenessClass (result (calculateRipeness st f)) = ''unripe''
            \<longleftrightarrow> 85000 \<le> ripenessIndexOf f (massKg st))
    \<and> (verdict (result (calculateRipeness st f)) = verdictRipe
            \<longleftrightarrow> ripenessIndexOf f (massKg st) < 74000)
    \<and> (verdict (result (calculateRipeness st f)) = verdictBorderline
            \<longleftrightarrow> 74000 \<le> ripenessIndexOf f (massKg st) \<and> ripenessIndexOf f (massKg st) < 85000)
    \<and> (verdict (result (calculateRipeness st f)) = verdictUnripe
            \<longleftrightarrow> 85000 \<le> ripenessIndexOf f (massKg st))"
  using verdict_distinct
  by (auto simp add: calculateRipeness_result [OF assms] Let_def)

theorem verdict_classification_witness:
  "ripenessClass (result (calculateRipeness (initialApp\<lparr>massKg := 1\<rparr>) (sqrt 74000))) = ''borderline''
   \<and> ripenessClass (result (calculateRipeness (initialApp\<lparr>massKg := 1\<rparr>) (sqrt 85000))) = ''unripe''
   \<and> ripenessClass (result (calculateRipeness (initialApp\<lparr>massKg := 1\<rparr>) 120)) = ''ripe''"
proof -
  have m: "0 < massKg (initialApp\<lparr>massKg := 1\<rparr>)" by simp
  have a: "ripenessIndexOf (sqrt 74000) (massKg (initialApp\<lparr>massKg := 1\<rparr>)) = 74000"
    by (simp add: idx_sqrt)
  have b: "ripenessIndexOf (sqrt 85000) (massKg (initialApp\<lparr>massKg := 1\<rparr>)) = 85000"
    by (simp add: idx_sqrt)
  have c: "ripenessIndexOf 120 (massKg (initialApp\<lparr>massKg := 1\<rparr>)) = 14400"
    by (simp add: ripenessIndexOf_def)
  from verdict_classification [OF m, of "sqrt 74000"] a
  have "ripenessClass (result (calculateRipeness (initialApp\<lparr>massKg := 1\<rparr>) (sqrt 74000))) = ''borderline''"
    by simp
  moreover from verdict_classification [OF m, of "sqrt 85000"] b
  have "ripenessClass (result (calculateRipeness (initialApp\<lparr>massKg := 1\<rparr>) (sqrt 85000))) = ''unripe''"
    by simp
  moreover from verdict_classification [OF m, of 120] c
  have "ripenessClass (result (calculateRipeness (initialApp\<lparr>massKg := 1\<rparr>) 120)) = ''ripe''"
    by simp
  ultimately show ?thesis by simp
qed

text \<open>
  C6. As the specification states it, \<open>calculateRipeness\<close> with a mass that is not positive
  would fail with a validation error. The script returns at once instead: with mass 0 the
  call gives back the state it was given, the error reference still empty and no result
  written.
\<close>

theorem calculateRipeness_invalid_mass_counterexample:
  "calculateRipeness (initialApp\<lparr>massKg := 0\<rparr>) 120 = initialApp\<lparr>massKg := 0\<rparr>
   \<and> error (calculateRipeness (initialApp\<lparr>massKg := 0\<rparr>) 120) = None
   \<and> result (calculateRipeness (initialApp\<lparr>massKg := 0\<rparr>) 120) = emptyResult"
  by (simp add: calculateRipeness_def initialApp_def)

text \<open>
  C6, amended. For every frequency and every mass \<open>massKg \<le> 0\<close>, \<open>calculateRipeness\<close>
  returns without reporting an error and leaves the whole state, the result included,
  unchanged.
\<close>

theorem calculateRipeness_invalid_mass:
  assumes "massKg st \<le> 0"
  shows "calculateRipeness st f = st"
  using assms by (simp add: calculateRipeness_def)

theorem calculateRipeness_invalid_mass_witness:
  "calculateRipeness (initialApp\<lparr>massKg := - 2\<rparr>) 120 = initialApp\<lparr>massKg := - 2\<rparr>"
proof -
  have "massKg (initialApp\<lparr>massKg := - 2\<rparr>) \<le> 0" by simp
  then show ?thesis by (rule calculateRipeness_invalid_mass)
qed

text \<open>
  C10. For a fixed positive mass and frequencies \<open>0 \<le> f1 \<le> f2\<close>, the ripeness index of
  \<open>f1\<close> is at most that of \<open>f2\<close>, and the score and the sweetness of \<open>f2\<close> are at most
  those of \<open>f1\<close>. More generally the score and the sweetness do not increase with the
  ripeness index: any scoring (of any positive mass and frequency) whose index is at least
  that of \<open>f1\<close> has a score and a sweetness at most those of \<open>f1\<close>.
\<close>

theorem ripeness_monotone:
  assumes "0 < massKg st" "0 \<le> f1" "f1 \<le> f2"
  shows "(\<exists>i1 i2. ripenessIndex (result (calculateRipeness st f1)) = Some i1
            \<and> ripenessIndex (result (calculateRipeness st f2)) = Some i2 \<and> i1 \<le> i2)
    \<and> (\<exists>a b. ripenessScore (result (calculateRipeness st f1)) = Some a
            \<and> ripenessScore (result (calculateRipeness st f2)) = Some b \<and> b \<le> a)
    \<and> (\<exists>c d. sweetnessBrix (result (calculateRipeness st f1)) = Some c
            \<and> sweetnessBrix (result (calculateRipeness st f2)) = Some d \<and> d \<le> c)
    \<and> (\<forall>st' f' i i'. 0 < massKg st'
            \<and> ripenessIndex (result (calculateRipeness st f1)) = Some i
            \<and> ripenessIndex (result (calculateRipeness st' f')) = Some i' \<and> i \<le> i'
          \<longrightarrow> (\<exists>a b c d. ripenessScore (result (calculateRipeness st f1)) = Some a
                \<and> ripenessScore (result (calculateRipeness st' f')) = Some b \<and> b \<le> a
                \<and> sweetnessBrix (result (calculateRipeness st f1)) = Some c
                \<and> sweetnessBrix (result (calculateRipeness st' f')) = Some d \<and> d \<le> c))"
proof -
  have m: "ripenessIndexOf f1 (massKg st) \<le> ripenessIndexOf f2 (massKg st)"
    using assms(2,3) by (rule ripenessIndexOf_mono)
  have idx: "ripenessIndex (result (calculateRipeness s f)) = Some (ripenessIndexOf f (massKg s))"
    if "0 < massKg s" for s f
    using that by (simp add: calculateRipeness_result Let_def)
  have A: "\<exists>i1 i2. ripenessIndex (result (calculateRipeness st f1)) = Some i1
            \<and> ripenessIndex (result (calculateRipeness st f2)) = Some i2 \<and> i1 \<le> i2"
    using m by (simp add: idx [OF assms(1)])
  from score_brix_antimono [OF assms(1) assms(1) m]
  have B: "\<exists>a b. ripenessScore (result (calculateRipeness st f1)) = Some a
            \<and> ripenessScore (result (calculateRipeness st f2)) = Some b \<and> b \<le> a"
    and C: "\<exists>c d. sweetnessBrix (result (calculateRipeness st f1)) = Some c
            \<and> sweetnessBrix (result (calculateRipeness st f2)) = Some d \<and> d \<le> c"
    by blast+
  have D: "\<exists>a b c d. ripenessScore (result (calculateRipeness st f1)) = Some a
                \<and> ripenessScore (result (calculateRipeness st' f')) = Some b \<and> b \<le> a
                \<and> sweetnessBrix (result (calculateRipeness st f1)) = Some c
                \<and> sweetnessBrix (result (calculateRipeness st' f')) = Some d \<and> d \<le> c"
    if "0 < massKg st'" "ripenessIndex (result (calculateRipeness st f1)) = Some i"
      "ripenessIndex (result (calculateRipeness st' f')) = Some i'" "i \<le> i'" for st' f' i i'
  proof -
    from that have "ripenessIndexOf f1 (massKg st) \<le> ripenessIndexOf f' (massKg st')"
      by (simp add: idx [OF assms(1)] idx [OF that(1)])
    with assms(1) that(1) show ?thesis by (rule score_brix_antimono)
  qed
  from A B C D show ?thesis by blast
qed

theorem ripeness_monotone_witness:
  "(\<exists>i1 i2. ripenessIndex (result (calculateRipeness (initialApp\<lparr>massKg := 1\<rparr>) (sqrt 60000))) = Some i1
      \<and> ripenessIndex (result (calculateRipeness (initialApp\<lparr>massKg := 1\<rparr>) (sqrt 95000))) = Some i2
      \<and> i1 \<le> i2)
   \<and> (\<exists>a b c d. ripenessScore (result (calculateRipeness (initialApp\<lparr>massKg := 1\<rparr>) (sqrt 60000))) = Some a
      \<and> ripenessScore (result (calculateRipeness (initialApp\<lparr>massKg := 1\<rparr>) (sqrt 95000))) = Some b
      \<and> b \<le> a
      \<and> sweetnessBrix (result (calculateRipeness (initialApp\<lparr>massKg := 1\<rparr>) (sqrt 60000))) = Some c
      \<and> sweetnessBrix (result (calculateRipeness (initialApp\<lparr>massKg := 1\<rparr>) (sqrt 95000))) = Some d
      \<and> d \<le> c)"
proof -
  define st where "st = initialApp\<lparr>massKg := 1\<rparr>"
  have ms: "massKg st = 1" by (simp add: st_def)
  then have m: "0 < massKg st" by simp
  have f: "(0::real) \<le> sqrt 60000" and g: "sqrt 60000 \<le> sqrt 95000" by simp_all
  note th = ripeness_monotone [OF m f g]
  have i1: "ripenessIndex (result (calculateRipeness st (sqrt 60000))) = Some 60000"
    by (simp add: calculateRipeness_result [OF m] Let_def ms idx_sqrt)
  have i2: "ripenessIndex (result (calculateRipeness st (sqrt 95000))) = Some 95000"
    by (simp add: calculateRipeness_result [OF m] Let_def ms idx_sqrt)
  have le: "(60000::real) \<le> 95000" by simp
  from th have A: "\<exists>i1 i2. ripenessIndex (result (calculateRipeness st (sqrt 60000))) = Some i1
      \<and> ripenessIndex (result (calculateRipeness st (sqrt 95000))) = Some i2 \<and> i1 \<le> i2"
    by blast
  from th have "0 < massKg st
      \<and> ripenessIndex (result (calculateRipeness st (sqrt 60000))) = Some 60000
      \<and> ripenessIndex (result (calculateRipeness st (sqrt 95000))) = Some 95000
      \<and> (60000::real) \<le> 95000
    \<longrightarrow> (\<exists>a b c d. ripenessScore (result (calculateRipeness st (sqrt 60000))) = Some a
      \<and> ripenessScore (result (calculateRipeness st (sqrt 95000))) = Some b \<and> b \<le> a
      \<and> sweetnessBrix (result (calculateRipeness st (sqrt 60000))) = Some c
      \<and> sweetnessBrix (result (calculateRipeness st (sqrt 95000))) = Some d \<and> d \<le> c)"
    by blast
  with m i1 i2 le have B: "\<exists>a b c d. ripenessScore (result (calculateRipeness st (sqrt 60000))) = Some a
      \<and> ripenessScore (result (calculateRipeness st (sqrt 95000))) = Some b \<and> b \<le> a
      \<and> sweetnessBrix (result (calculateRipeness st (sqrt 60000))) = Some c
      \<and> sweetnessBrix (result (calculateRipeness st (sqrt 95000))) = Some d \<and> d \<le> c"
    by blast
  from A B show ?thesis unfolding st_def by blast
qed

subsection \<open>Starting a session\<close>

text \<open>
  C5. As the specification states it, starting with a mass that is not positive would fail
  with a validation error and leave the detector idle. \<open>startDetection\<close> does not look at
  the mass: in a browser that grants the microphone, with mass 0, it ends listening and
  with no error reported.
\<close>

theorem start_invalid_mass_counterexample:
  "isListening (startDetection \<lparr>mediaSupported = True, captureError = None\<rparr> (initialApp\<lparr>massKg := 0\<rparr>))
   \<and> error (startDetection \<lparr>mediaSupported = True, captureError = None\<rparr> (initialApp\<lparr>massKg := 0\<rparr>)) = None"
  by (simp add: startDetection_def detectThump_def initialApp_def)

text \<open>
  C5, amended. With a mass \<open>massKg \<le> 0\<close> the start button is disabled, and a click on it
  leaves the whole state unchanged: an idle detector stays idle, never starts listening,
  and no error is reported.
\<close>

theorem start_button_gate:
  assumes "massKg st \<le> 0"
  shows "startDisabled st \<and> clickStart env st = st"
  using assms by (simp add: clickStart_def startDisabled_def isMassValid_def)

theorem start_button_gate_witness:
  "clickStart \<lparr>mediaSupported = True, captureError = None\<rparr> (initialApp\<lparr>massKg := 0\<rparr>)
     = initialApp\<lparr>massKg := 0\<rparr>
   \<and> \<not> isListening (clickStart \<lparr>mediaSupported = True, captureError = None\<rparr> (initialApp\<lparr>massKg := 0\<rparr>))"
proof -
  have "massKg (initialApp\<lparr>massKg := 0\<rparr>) \<le> 0" by simp
  from start_button_gate [OF this, of "\<lparr>mediaSupported = True, captureError = None\<rparr>"]
  show ?thesis by (simp add: initialApp_def)
qed

subsection \<open>The frame scan\<close>






lemma scanBand_done: "maxIndex \<le> i \<Longrightarrow> scanBand d i maxIndex s = s"
  by (simp add: scanBand.simps)










lemma detectBand_equal_indices:
  assumes "minIndex = maxIndex"
  shows "detectBand dataArray minIndex maxIndex binWidth absT relT = None"
  using assms
  by (simp add: detectBand_def Let_def scanBand_done scanStart_def averageAmplitude_def)







subsection \<open>The frame callback\<close>

text \<open>
  \<open>processAudio\<close> applies the scan to the band of the sample rate. For a positive sample
  rate the two indices are ordered, so a band that is not proper has \<open>minIndex = maxIndex\<close>
  and the frame only requests the next one. The frame has
  \<open>frequencyBinCount = fftSize / 2 = 8192\<close> bins, and for every sample rate from 600 Hz to
  3 MHz the band is not empty and lies inside the frame.
\<close>

lemma processAudio_event:
  assumes "detectBand dataArray (round (100 / (sampleRate / fftSize)))
      (round (300 / (sampleRate / fftSize))) (sampleRate / fftSize)
      (absoluteThreshold (sensitivity st)) (relativeThreshold (sensitivity st)) = Some f"
  shows "processAudio sampleRate dataArray st = stopListening (calculateRipeness st f)"
  using assms by (simp add: processAudio_def Let_def)

lemma processAudio_no_event:
  assumes "detectBand dataArray (round (100 / (sampleRate / fftSize)))
      (round (300 / (sampleRate / fftSize))) (sampleRate / fftSize)
      (absoluteThreshold (sensitivity st)) (relativeThreshold (sensitivity st)) = None"
  shows "processAudio sampleRate dataArray st = st\<lparr>framePending := True\<rparr>"
  using assms by (simp add: processAudio_def Let_def)

lemma band_indices_ordered:
  assumes "0 < sampleRate"
  shows "round (100 / (sampleRate / fftSize)) \<le> round (300 / (sampleRate / fftSize))"
proof -
  have "0 < sampleRate / fftSize" using assms by (simp add: fftSize_def)
  then have "100 / (sampleRate / fftSize) \<le> 300 / (sampleRate / fftSize)"
    by (intro divide_right_mono) simp_all
  then show ?thesis by (rule round_mono)
qed

lemma processAudio_degenerate_band:
  assumes "0 < sampleRate"
    and "round (300 / (sampleRate / fftSize)) \<le> round (100 / (sampleRate / fftSize))"
  shows "processAudio sampleRate dataArray st = st\<lparr>framePending := True\<rparr>"
proof -
  from assms band_indices_ordered [OF assms(1)]
  have "round (100 / (sampleRate / fftSize)) = round (300 / (sampleRate / fftSize))"
    by simp
  then show ?thesis
    by (simp add: processAudio_def Let_def detectBand_equal_indices)
qed

lemma band_in_frame:
  assumes "600 \<le> sampleRate" "sampleRate \<le> 3000000"
  shows "0 \<le> round (100 / (sampleRate / fftSize))
    \<and> round (100 / (sampleRate / fftSize)) < round (300 / (sampleRate / fftSize))
    \<and> round (300 / (sampleRate / fftSize)) \<le> 8192"
proof -
  define x where "x = 100 / (sampleRate / fftSize)"
  have pos: "0 < sampleRate" using assms(1) by simp
  have x: "x = 1638400 / sampleRate"
    by (simp add: x_def fftSize_def)
  have three: "300 / (sampleRate / fftSize) = 3 * x"
    by (simp add: x_def)
  have lo: "1 / 2 \<le> x"
    unfolding x using assms(2) pos by (simp add: field_simps)
  have hi: "3 * x \<le> 8192"
    unfolding x using assms(1) pos by (simp add: field_simps)
  have "round (0::real) \<le> round x" using lo by (intro round_mono) simp
  then have a: "0 \<le> round x" by simp
  have "x + 1 + 1 / 2 = (x + 1 / 2) + 1" by simp
  then have "round (x + 1) = \<lfloor>(x + 1 / 2) + 1\<rfloor>" unfolding round_def by (rule arg_cong)
  also have "\<dots> = \<lfloor>x + 1 / 2\<rfloor> + 1" using floor_add_int [of "x + 1 / 2" 1] by simp
  finally have "round x + 1 = round (x + 1)" unfolding round_def by simp
  also have "\<dots> \<le> round (3 * x)" using lo by (intro round_mono) simp
  finally have b: "round x < round (3 * x)" by simp
  have "round (3 * x) \<le> round (8192::real)" using hi by (rule round_mono)
  then have c: "round (3 * x) \<le> 8192" by simp
  from a b c show ?thesis unfolding three x_def [symmetric] by simp
qed




text \<open>
  C7. For a positive sample rate, if the band of the callback is degenerate,
  \<open>minIndex \<ge> maxIndex\<close>, then no event is given, whatever the magnitudes of the frame and
  whatever the two thresholds: the scan gives none, and \<open>processAudio\<close> changes nothing and
  requests the next frame.
\<close>

theorem degenerate_band_never_detects:
  fixes sampleRate :: real and dataArray :: "8 word list" and st :: app and absT relT :: real
  defines "minIndex \<equiv> round (100 / (sampleRate / fftSize))"
    and "maxIndex \<equiv> round (300 / (sampleRate / fftSize))"
  assumes "0 < sampleRate" and "maxIndex \<le> minIndex"
  shows "detectBand dataArray minIndex maxIndex (sampleRate / fftSize) absT relT = None
    \<and> processAudio sampleRate dataArray st = st\<lparr>framePending := True\<rparr>"
proof -
  from band_indices_ordered [OF assms(3)] assms(4) have "minIndex = maxIndex"
    unfolding minIndex_def maxIndex_def by simp
  then have "detectBand dataArray minIndex maxIndex (sampleRate / fftSize) absT relT = None"
    by (rule detectBand_equal_indices)
  moreover have "processAudio sampleRate dataArray st = st\<lparr>framePending := True\<rparr>"
    using assms(3) assms(4) [unfolded minIndex_def maxIndex_def]
    by (rule processAudio_degenerate_band)
  ultimately show ?thesis by simp
qed

theorem degenerate_band_never_detects_witness:
  "round (100 / (10000000 / fftSize)) = 0 \<and> round (300 / (10000000 / fftSize)) = 0
   \<and> detectBand (replicate 8192 255) 0 0 (10000000 / fftSize)
        (absoluteThreshold 20) (relativeThreshold 20) = None
   \<and> processAudio 10000000 (replicate 8192 255) (initialApp\<lparr>isListening := True, sensitivity := 20\<rparr>)
       = initialApp\<lparr>isListening := True, sensitivity := 20, framePending := True\<rparr>"
proof -
  have lo: "round (100 / (10000000 / fftSize)) = 0" and hi: "round (300 / (10000000 / fftSize)) = 0"
    by (simp_all add: fftSize_def round_def)
  have p: "(0::real) < 10000000" by simp
  have d: "round (300 / (10000000 / fftSize)) \<le> round (100 / (10000000 / fftSize))"
    unfolding lo hi by simp
  note th = degenerate_band_never_detects [OF p d, of "replicate 8192 255"
      "absoluteThreshold 20" "relativeThreshold 20"
      "initialApp\<lparr>isListening := True, sensitivity := 20\<rparr>", unfolded lo hi]
  from lo hi th show ?thesis by simp
qed




end
